theory Spec2Isabelle
  imports Main
begin

section \<open>Python values, exceptions and responses\<close>

text \<open>
  The values the dispatch layer handles are arbitrary Python objects: what an operation
  returns, what an exception carries, what is handed to \<^verbatim>\<open>JsonResponse\<close>. \<open>PTuple\<close> is an
  object whose type is exactly \<^verbatim>\<open>tuple\<close>, \<open>PDict\<close> a dict as its items in insertion order,
  \<open>PResponse\<close> an \<^verbatim>\<open>HttpResponse\<close> object (the data its content encodes and its status) and
  \<open>PObject\<close> an instance of any other class, which the JSON encoder has no rule for.
  Floats are left out.
\<close>

datatype pyval =
    PNone
  | PBool bool
  | PInt int
  | PStr string
  | PList "pyval list"
  | PTuple "pyval list"
  | PDict "(pyval \<times> pyval) list"
  | PResponse pyval int
  | PObject string

text \<open>
  The exception classes that the \<^verbatim>\<open>except\<close> clauses of \<^verbatim>\<open>BaseAPI.dispatch\<close> tell apart.
  \<open>ValidationError\<close> carries the value of \<^verbatim>\<open>e.errors()\<close>; \<open>APIException\<close> carries the three
  fields of \<^verbatim>\<open>brapi.exceptions.APIException\<close>: \<^verbatim>\<open>code\<close>, \<^verbatim>\<open>message\<close> and \<^verbatim>\<open>status_code\<close>. \<open>OtherException\<close> is any other subclass of
  \<^verbatim>\<open>Exception\<close> (\<^verbatim>\<open>UnicodeDecodeError\<close>, \<^verbatim>\<open>KeyError\<close>, ...), \<open>NonException\<close> a
  \<^verbatim>\<open>BaseException\<close> that is not an \<^verbatim>\<open>Exception\<close> (\<^verbatim>\<open>SystemExit\<close>, \<^verbatim>\<open>KeyboardInterrupt\<close>).
\<close>

datatype exn =
    ValidationError pyval
  | JSONDecodeError
  | NotImplementedError
  | ObjectDoesNotExist
  | APIException pyval pyval pyval
  | TypeError
  | ValueError
  | OtherException string
  | NonException string

text \<open>
  \<^verbatim>\<open>APIException.__init__(self, code, message=None, status_code=None)\<close>: an argument that
  is left out takes its default, \<^verbatim>\<open>None\<close>.
\<close>

definition APIException_init :: "pyval \<Rightarrow> pyval option \<Rightarrow> pyval option \<Rightarrow> exn" where
  "APIException_init code message status_code =
     APIException code
       (case message of None \<Rightarrow> PNone | Some m \<Rightarrow> m)
       (case status_code of None \<Rightarrow> PNone | Some s \<Rightarrow> s)"

record response =
  body :: pyval
  status :: int

definition response_object :: "response \<Rightarrow> pyval" where
  "response_object r = PResponse (body r) (status r)"

subsection \<open>What \<^verbatim>\<open>json.dumps\<close> accepts\<close>

text \<open>
  \<^verbatim>\<open>json.dumps\<close> encodes \<^verbatim>\<open>None\<close>, booleans, integers, strings, lists, tuples and dicts whose
  keys are strings, integers, booleans or \<^verbatim>\<open>None\<close>; for anything else it raises
  \<^verbatim>\<open>TypeError\<close>.
\<close>

fun json_key :: "pyval \<Rightarrow> bool" where
  "json_key PNone = True"
| "json_key (PBool _) = True"
| "json_key (PInt _) = True"
| "json_key (PStr _) = True"
| "json_key _ = False"

fun json_serializable :: "pyval \<Rightarrow> bool" where
  "json_serializable PNone = True"
| "json_serializable (PBool _) = True"
| "json_serializable (PInt _) = True"
| "json_serializable (PStr _) = True"
| "json_serializable (PList xs) = list_all json_serializable xs"
| "json_serializable (PTuple xs) = list_all json_serializable xs"
| "json_serializable (PDict kvs) =
     (list_all json_key (map fst kvs) \<and> list_all json_serializable (map snd kvs))"
| "json_serializable (PResponse _ _) = False"
| "json_serializable (PObject _) = False"

subsection \<open>\<^verbatim>\<open>int()\<close> of a status value\<close>

text \<open>
  Django's response constructor applies \<^verbatim>\<open>int()\<close> to a status that is not \<^verbatim>\<open>None\<close>.
  \<open>py_int\<close> is \<open>None\<close> where \<^verbatim>\<open>int()\<close> raises. A string is read as an ASCII decimal literal:
  surrounding whitespace (tab, line feed, vertical tab, form feed, carriage return,
  space), one optional sign, digits with single underscores between them.
\<close>

definition is_space :: "char \<Rightarrow> bool" where
  "is_space c = ((of_char c :: nat) \<in> set [9, 10, 11, 12, 13, 32])"

definition is_digit :: "char \<Rightarrow> bool" where
  "is_digit c = (48 \<le> (of_char c :: nat) \<and> (of_char c :: nat) \<le> 57)"

definition strip :: "string \<Rightarrow> string" where
  "strip s = rev (dropWhile is_space (rev (dropWhile is_space s)))"

fun digits :: "nat \<Rightarrow> bool \<Rightarrow> string \<Rightarrow> nat option" where
  "digits acc prev [] = (if prev then Some acc else None)"
| "digits acc prev (c # cs) =
     (if is_digit c then digits (10 * acc + (of_char c - 48)) True cs
      else if c = CHR ''_'' \<and> prev then digits acc False cs
      else None)"

definition py_int_str :: "string \<Rightarrow> int option" where
  "py_int_str s =
     (case strip s of
        [] \<Rightarrow> None
      | c # cs \<Rightarrow>
          if c = CHR ''-'' then map_option (\<lambda>n. - int n) (digits 0 False cs)
          else if c = CHR ''+'' then map_option int (digits 0 False cs)
          else map_option int (digits 0 False (c # cs)))"

fun py_int :: "pyval \<Rightarrow> int option" where
  "py_int (PInt n) = Some n"
| "py_int (PBool b) = Some (if b then 1 else 0)"
| "py_int (PStr s) = py_int_str s"
| "py_int _ = None"

subsection \<open>\<^verbatim>\<open>JsonResponse\<close>\<close>

text \<open>
  \<^verbatim>\<open>JsonResponse(data, status=status)\<close> as \<^verbatim>\<open>api.py\<close> calls it, with Django's defaults
  (\<^verbatim>\<open>safe=True\<close>): data that is not a dict raises \<^verbatim>\<open>TypeError\<close>; so does data that
  \<^verbatim>\<open>json.dumps\<close> cannot encode. A status of \<^verbatim>\<open>None\<close> (also: no status argument) leaves the
  response class's default, 200; any other status goes through \<^verbatim>\<open>int()\<close>
  (\<^verbatim>\<open>TypeError\<close> when that fails) and must lie in 100..599 (\<^verbatim>\<open>ValueError\<close> otherwise).
  The body of the response is kept as the data that was encoded.
\<close>

fun is_dict :: "pyval \<Rightarrow> bool" where
  "is_dict (PDict _) = True"
| "is_dict _ = False"

definition JsonResponse :: "pyval \<Rightarrow> pyval \<Rightarrow> exn + response" where
  "JsonResponse data status' =
     (if \<not> is_dict data then Inl TypeError
      else if \<not> json_serializable data then Inl TypeError
      else if status' = PNone then Inr \<lparr>body = data, status = 200\<rparr>
      else (case py_int status' of
              None \<Rightarrow> Inl TypeError
            | Some n \<Rightarrow>
                if 100 \<le> n \<and> n \<le> 599 then Inr \<lparr>body = data, status = n\<rparr>
                else Inl ValueError))"

section \<open>Requests and schema bindings\<close>

datatype http_method =
  GET | POST | PUT | PATCH | DELETE | HEAD | OPTIONS | TRACE | OtherMethod string

text \<open>
  The request as \<^verbatim>\<open>api.py\<close> reads it: \<^verbatim>\<open>request.method\<close>, \<^verbatim>\<open>request.path\<close>,
  \<^verbatim>\<open>request.content_type\<close>, the query string \<^verbatim>\<open>request.GET\<close> and the form data
  \<^verbatim>\<open>request.POST\<close> as key/value pairs in the order sent, and \<open>req_body_json\<close>, the outcome
  of \<^verbatim>\<open>json.loads(request.body.decode("utf-8"))\<close> on this request's body (the model
  consults it only where the source evaluates that expression). The two attributes
  \<^verbatim>\<open>validated_query\<close> and \<^verbatim>\<open>validated_body\<close> are only annotated in \<^verbatim>\<open>APIRequest\<close>: an
  attribute that has not been assigned is \<open>None\<close> here, one that holds Python's
  \<^verbatim>\<open>None\<close> is \<open>Some PNone\<close>.
\<close>

record request =
  req_method :: http_method
  req_path :: string
  req_content_type :: string
  req_GET :: "(string \<times> string) list"
  req_POST :: "(string \<times> string) list"
  req_body_json :: "exn + pyval"
  validated_query :: "pyval option"
  validated_body :: "pyval option"

text \<open>
  A schema is a pydantic model class; calling it with keyword arguments gives the
  validated object or raises. The schema engine itself is outside the repository.
\<close>

type_synonym schema = "(string \<times> pyval) list \<Rightarrow> exn + pyval"

text \<open>
  The attributes that \<^verbatim>\<open>decorators.validate\<close> attaches to a function object;
  \<open>None\<close> is a function without the attribute (\<^verbatim>\<open>hasattr\<close> is false).
\<close>

record func_attrs =
  validate_query :: "schema option"
  validate_body :: "schema option"

definition no_attrs :: func_attrs where
  "no_attrs = \<lparr>validate_query = None, validate_body = None\<rparr>"

text \<open>
  \<^verbatim>\<open>decorators.validate(query=None, body=None)\<close> applied to \<open>view_func\<close>: each attribute
  is set only when its argument is truthy (a model class is; \<^verbatim>\<open>None\<close> is not).
\<close>

definition validate_decorator :: "schema option \<Rightarrow> schema option \<Rightarrow> func_attrs \<Rightarrow> func_attrs" where
  "validate_decorator query body' view_func =
     (let view_func = (case query of
                         Some q \<Rightarrow> view_func\<lparr>validate_query := Some q\<rparr>
                       | None \<Rightarrow> view_func);
          view_func = (case body' of
                         Some b \<Rightarrow> view_func\<lparr>validate_body := Some b\<rparr>
                       | None \<Rightarrow> view_func)
      in view_func)"

subsection \<open>Dicts built from the request\<close>

text \<open>Assignment \<^verbatim>\<open>d[k] = v\<close> on a dict kept as its items in insertion order.\<close>

fun dict_set :: "(string \<times> 'v) list \<Rightarrow> string \<Rightarrow> 'v \<Rightarrow> (string \<times> 'v) list" where
  "dict_set [] k v = [(k, v)]"
| "dict_set ((k', v') # d) k v =
     (if k' = k then (k, v) # d else (k', v') # dict_set d k v)"

text \<open>\<^verbatim>\<open>QueryDict.dict()\<close>: one entry per key, the last value sent for it.\<close>

definition QueryDict_dict :: "(string \<times> string) list \<Rightarrow> (string \<times> pyval) list" where
  "QueryDict_dict qs = foldl (\<lambda>d (k, v). dict_set d k (PStr v)) [] qs"

text \<open>
  The unpacking \<^verbatim>\<open>**body_data\<close> in a call: the value must be a mapping and its keys
  strings, otherwise the call raises \<^verbatim>\<open>TypeError\<close>.
\<close>

fun keyword_items :: "(pyval \<times> pyval) list \<Rightarrow> exn + (string \<times> pyval) list" where
  "keyword_items [] = Inr []"
| "keyword_items ((PStr k, v) # kvs) =
     (case keyword_items kvs of Inl e \<Rightarrow> Inl e | Inr r \<Rightarrow> Inr ((k, v) # r))"
| "keyword_items (_ # kvs) = Inl TypeError"

fun kwargs_of :: "pyval \<Rightarrow> exn + (string \<times> pyval) list" where
  "kwargs_of (PDict kvs) = keyword_items kvs"
| "kwargs_of _ = Inl TypeError"

section \<open>Runs: what was called, and the outcome\<close>

text \<open>
  A run of a method is the list of calls it made, in order, and its outcome: the
  exception that left it (\<open>Inl\<close>) or the value it returned (\<open>Inr\<close>). The events are the
  calls the properties below are about: the two hooks, the validator reading and
  validating one side of the request, and the five operation methods. Log lines are
  not recorded.
\<close>

datatype operation = OpCreate | OpList | OpRetrieve | OpUpdate | OpDestroy

datatype side = QuerySide | BodySide

datatype event =
    CallAuthenticate
  | CallValidate
  | Parse side
  | Invoke operation

type_synonym 'a run = "event list \<times> (exn + 'a)"

definition returns :: "'a \<Rightarrow> 'a run" where
  "returns x = ([], Inr x)"

definition raises :: "exn \<Rightarrow> 'a run" where
  "raises e = ([], Inl e)"

definition outcome :: "(exn + 'a) \<Rightarrow> 'a run" where
  "outcome r = ([], r)"

definition calls :: "event \<Rightarrow> (exn + 'a) \<Rightarrow> 'a run" where
  "calls ev r = ([ev], r)"

definition and_then :: "'a run \<Rightarrow> ('a \<Rightarrow> 'b run) \<Rightarrow> 'b run" where
  "and_then m f =
     (case m of
        (t, Inl e) \<Rightarrow> (t, Inl e)
      | (t, Inr x) \<Rightarrow> (case f x of (t', r) \<Rightarrow> (t @ t', r)))"

text \<open>\<^verbatim>\<open>try: m except ...: h\<close>, where \<open>h\<close> maps the exception to the handler's outcome.\<close>

definition try_except :: "'a run \<Rightarrow> (exn \<Rightarrow> exn + 'a) \<Rightarrow> 'a run" where
  "try_except m h =
     (case m of
        (t, Inl e) \<Rightarrow> (t, h e)
      | (t, Inr x) \<Rightarrow> (t, Inr x))"

section \<open>\<^verbatim>\<open>BaseAPI\<close>\<close>

text \<open>
  A controller is a subclass of \<^verbatim>\<open>BaseAPI\<close>: its five operation methods, its two hooks
  (a hook returns nothing; it may change the request or raise), and the attributes
  of the function objects that \<^verbatim>\<open>_validate\<close> is handed.
\<close>

datatype method_name = M_create | M_list | M_retrieve | M_update | M_destroy | M_put

record controller =
  create :: "request \<Rightarrow> exn + pyval"
  list_op :: "request \<Rightarrow> exn + pyval"
  retrieve :: "request \<Rightarrow> string \<Rightarrow> exn + pyval"
  update :: "request \<Rightarrow> string \<Rightarrow> exn + pyval"
  destroy :: "request \<Rightarrow> string \<Rightarrow> exn + pyval"
  authenticate :: "request \<Rightarrow> exn + request"
  validate :: "request \<Rightarrow> exn + request"
  attrs :: "method_name \<Rightarrow> func_attrs"

text \<open>\<^verbatim>\<open>BaseAPI\<close> itself: every operation raises, the hooks do nothing, nothing is bound.\<close>

definition BaseAPI :: controller where
  "BaseAPI =
     \<lparr>create = (\<lambda>request. Inl NotImplementedError),
      list_op = (\<lambda>request. Inl NotImplementedError),
      retrieve = (\<lambda>request pk. Inl NotImplementedError),
      update = (\<lambda>request pk. Inl NotImplementedError),
      destroy = (\<lambda>request pk. Inl NotImplementedError),
      authenticate = (\<lambda>request. Inr request),
      validate = (\<lambda>request. Inr request),
      attrs = (\<lambda>m. no_attrs)\<rparr>"

text \<open>\<^verbatim>\<open>BaseAPI._validate(self, function, request)\<close>, lines 60-89.\<close>

definition BaseAPI_validate :: "func_attrs \<Rightarrow> request \<Rightarrow> request run" where
  "BaseAPI_validate function request =
     and_then
       (case validate_query function of
          None \<Rightarrow> returns PNone
        | Some query_model \<Rightarrow>
            calls (Parse QuerySide) (query_model (QueryDict_dict (req_GET request))))
       (\<lambda>validated_query'.
     and_then
       (case validate_body function of
          None \<Rightarrow> returns PNone
        | Some body_model \<Rightarrow>
            if req_method request \<in> set [POST, PUT, PATCH] then
              and_then
                (if req_content_type request = ''application/json''
                 then calls (Parse BodySide) (req_body_json request)
                 else calls (Parse BodySide) (Inr (PDict (map (\<lambda>(k, v). (PStr k, v))
                                                     (QueryDict_dict (req_POST request))))))
                (\<lambda>body_data.
                   outcome (case kwargs_of body_data of
                              Inl e \<Rightarrow> Inl e
                            | Inr kw \<Rightarrow> body_model kw))
            else returns PNone)
       (\<lambda>validated_body'.
          returns (request\<lparr>validated_body := Some validated_body',
                            validated_query := Some validated_query'\<rparr>)))"

text \<open>
  The verb handlers, lines 154-180. \<open>pk\<close> is \<^verbatim>\<open>kwargs.get("pk")\<close>; the test
  \<^verbatim>\<open>if pk := kwargs.get("pk")\<close> is Python's truth test, false for \<^verbatim>\<open>None\<close> and for the
  empty string.
\<close>

definition get :: "controller \<Rightarrow> request \<Rightarrow> string option \<Rightarrow> pyval run" where
  "get self request pk =
     and_then (BaseAPI_validate (attrs self M_retrieve) request)
       (\<lambda>request.
          case pk of
            Some k \<Rightarrow>
              if k \<noteq> [] then calls (Invoke OpRetrieve) (retrieve self request k)
              else calls (Invoke OpList) (list_op self request)
          | None \<Rightarrow> calls (Invoke OpList) (list_op self request))"

definition post :: "controller \<Rightarrow> request \<Rightarrow> pyval run" where
  "post self request =
     and_then (BaseAPI_validate (attrs self M_create) request)
       (\<lambda>request. calls (Invoke OpCreate) (create self request))"

definition pk_required :: "string \<Rightarrow> pyval run" where
  "pk_required verb =
     outcome (map_sum id response_object
       (JsonResponse
          (PDict [(PStr ''error'', PStr (verb @ '' method requires 'pk' parameter''))])
          (PInt 400)))"

definition put :: "controller \<Rightarrow> request \<Rightarrow> string option \<Rightarrow> pyval run" where
  "put self request pk =
     (case pk of
        Some k \<Rightarrow>
          if k \<noteq> [] then
            and_then (BaseAPI_validate (attrs self M_put) request)
              (\<lambda>request. calls (Invoke OpUpdate) (update self request k))
          else pk_required ''PUT''
      | None \<Rightarrow> pk_required ''PUT'')"

definition delete :: "controller \<Rightarrow> request \<Rightarrow> string option \<Rightarrow> pyval run" where
  "delete self request pk =
     (case pk of
        Some k \<Rightarrow>
          if k \<noteq> [] then
            and_then (BaseAPI_validate (attrs self M_put) request)
              (\<lambda>request. calls (Invoke OpDestroy) (destroy self request k))
          else pk_required ''DELETE''
      | None \<Rightarrow> pk_required ''DELETE'')"

text \<open>
  \<^verbatim>\<open>super().dispatch(request, *args, **kwargs)\<close>: Django's \<^verbatim>\<open>View.dispatch\<close> calls the
  method named after the verb with the keyword arguments of the matched route.
  \<^verbatim>\<open>View.setup\<close> has made \<^verbatim>\<open>head\<close> an alias of \<^verbatim>\<open>get\<close>; \<^verbatim>\<open>post\<close> takes no keyword, so a
  call with \<^verbatim>\<open>pk\<close> raises \<^verbatim>\<open>TypeError\<close>; \<^verbatim>\<open>options\<close> is \<^verbatim>\<open>View\<close>'s own and answers with an
  empty \<^verbatim>\<open>HttpResponse\<close>; a verb without a method gets \<^verbatim>\<open>HttpResponseNotAllowed\<close>.
\<close>

definition View_dispatch :: "controller \<Rightarrow> request \<Rightarrow> string option \<Rightarrow> pyval run" where
  "View_dispatch self request pk =
     (case req_method request of
        GET \<Rightarrow> get self request pk
      | HEAD \<Rightarrow> get self request pk
      | POST \<Rightarrow> (case pk of None \<Rightarrow> post self request | Some k \<Rightarrow> raises TypeError)
      | PUT \<Rightarrow> put self request pk
      | DELETE \<Rightarrow> delete self request pk
      | OPTIONS \<Rightarrow> returns (PResponse PNone 200)
      | _ \<Rightarrow> returns (PResponse PNone 405))"

text \<open>
  The \<^verbatim>\<open>except\<close> clauses of \<^verbatim>\<open>BaseAPI.dispatch\<close>, lines 198-243, in their order. Each
  returns a \<^verbatim>\<open>JsonResponse\<close>; an exception raised while building it leaves \<^verbatim>\<open>dispatch\<close>.
  The last clause is \<^verbatim>\<open>except Exception\<close>, which an exception outside that class passes.
\<close>

fun except_clauses :: "exn \<Rightarrow> exn + response" where
  "except_clauses (ValidationError errors) =
     JsonResponse (PDict [(PStr ''error'', errors)]) (PInt 400)"
| "except_clauses JSONDecodeError =
     JsonResponse (PDict [(PStr ''error'', PStr ''Invalid JSON body'')]) (PInt 400)"
| "except_clauses NotImplementedError =
     JsonResponse (PDict [(PStr ''error'', PStr ''Method not supported''),
                          (PStr ''code'', PStr ''method_not_supported'')]) (PInt 400)"
| "except_clauses ObjectDoesNotExist =
     JsonResponse (PDict [(PStr ''error'', PStr ''Object does not exist''),
                          (PStr ''code'', PStr ''not_found'')]) (PInt 404)"
| "except_clauses (APIException c m s) =
     JsonResponse (PDict [(PStr ''error'', m), (PStr ''code'', c)]) s"
| "except_clauses TypeError =
     JsonResponse (PDict [(PStr ''error'', PStr ''Server returned invalid data.''),
                          (PStr ''code'', PStr ''server_borked'')]) (PInt 500)"
| "except_clauses (NonException n) = Inl (NonException n)"
| "except_clauses e =
     JsonResponse (PDict [(PStr ''error'', PStr ''Unknown Error''),
                          (PStr ''code'', PStr ''server_borked'')]) (PInt 500)"

text \<open>The body of the \<^verbatim>\<open>try\<close>, lines 192-196, after \<^verbatim>\<open>super().dispatch\<close> has returned.\<close>

definition build_response :: "pyval \<Rightarrow> exn + response" where
  "build_response response =
     (case response of
        PTuple items \<Rightarrow>
          (case items of
             [response, code] \<Rightarrow> JsonResponse response code
           | _ \<Rightarrow> Inl ValueError)
      | _ \<Rightarrow> JsonResponse response PNone)"

text \<open>\<^verbatim>\<open>BaseAPI.dispatch\<close>, lines 182-243.\<close>

definition dispatch :: "controller \<Rightarrow> request \<Rightarrow> string option \<Rightarrow> response run" where
  "dispatch self request pk =
     and_then (calls CallAuthenticate (authenticate self request))
       (\<lambda>request.
     and_then (calls CallValidate (validate self request))
       (\<lambda>request.
          try_except
            (and_then (View_dispatch self request pk)
               (\<lambda>response. outcome (build_response response)))
            except_clauses))"

section \<open>\<^verbatim>\<open>Router\<close>\<close>

text \<open>
  A controller class as the router sees it: \<^verbatim>\<open>klass.__module__\<close> and the controller
  that instantiating it gives. \<^verbatim>\<open>klass.as_view()\<close> is the view that answers a request
  with a fresh instance's \<^verbatim>\<open>dispatch\<close>. A route entry is what \<^verbatim>\<open>django.urls.path\<close> is
  given: the route, the view and the name.
\<close>

record api_class =
  cls_module :: string
  cls_instance :: controller

definition as_view :: "api_class \<Rightarrow> request \<Rightarrow> string option \<Rightarrow> response run" where
  "as_view klass = (\<lambda>request pk. dispatch (cls_instance klass) request pk)"

record url_pattern =
  route :: string
  callback :: "request \<Rightarrow> string option \<Rightarrow> response run"
  name :: string

definition path :: "string \<Rightarrow> (request \<Rightarrow> string option \<Rightarrow> response run) \<Rightarrow> string \<Rightarrow> url_pattern" where
  "path route' view name' = \<lparr>route = route', callback = view, name = name'\<rparr>"

record router =
  urlpatterns :: "url_pattern list"

definition Router_init :: router where
  "Router_init = \<lparr>urlpatterns = []\<rparr>"

text \<open>\<^verbatim>\<open>s.split(".")[0]\<close>: the text before the first dot, all of \<open>s\<close> when it has none.\<close>

definition split_first :: "string \<Rightarrow> string" where
  "split_first s = takeWhile (\<lambda>c. c \<noteq> CHR ''.'') s"

definition add :: "router \<Rightarrow> api_class \<Rightarrow> router" where
  "add self klass =
     (let module_name = cls_module klass;
          package_name = split_first module_name;
          base_url = package_name @ ''/'';
          detail_url = package_name @ ''/<str:pk>/'';
          self = self\<lparr>urlpatterns := urlpatterns self @
                   [path base_url (as_view klass) (package_name @ ''-list'')]\<rparr>;
          self = self\<lparr>urlpatterns := urlpatterns self @
                   [path detail_url (as_view klass) (package_name @ ''-detail'')]\<rparr>
      in self)"

definition urls :: "router \<Rightarrow> url_pattern list" where
  "urls self = urlpatterns self"

section \<open>Example requests and controllers\<close>

text \<open>Concrete inputs on which the properties below are evaluated.\<close>

definition example_request :: request where
  "example_request =
     \<lparr>req_method = GET, req_path = ''/widgets/'', req_content_type = [],
      req_GET = [], req_POST = [], req_body_json = Inl JSONDecodeError,
      validated_query = None, validated_body = None\<rparr>"

definition put_request :: request where
  "put_request = example_request\<lparr>req_method := PUT\<rparr>"

definition delete_request :: request where
  "delete_request = example_request\<lparr>req_method := DELETE\<rparr>"

definition post_request :: request where
  "post_request =
     example_request\<lparr>req_method := POST, req_content_type := ''application/json'',
                     req_body_json := Inr (PDict [(PStr ''name'', PStr ''foo'')])\<rparr>"

text \<open>A controller whose generic validation hook rejects every request.\<close>

definition strict_api :: controller where
  "strict_api = BaseAPI\<lparr>validate := (\<lambda>request. Inl ValueError)\<rparr>"

text \<open>A controller whose authentication hook rejects every request.\<close>

definition guarded_api :: controller where
  "guarded_api =
     BaseAPI\<lparr>authenticate :=
       (\<lambda>request. Inl (APIException_init (PStr ''unauthorized'')
                         (Some (PStr ''Login required'')) (Some (PInt 401))))\<rparr>"

text \<open>Controllers whose \<^verbatim>\<open>retrieve\<close> raises an \<^verbatim>\<open>APIException\<close>.\<close>

definition teapot_api :: controller where
  "teapot_api =
     BaseAPI\<lparr>retrieve :=
       (\<lambda>request pk. Inl (APIException_init (PStr ''teapot'')
                            (Some (PStr ''I am a teapot'')) (Some (PInt 418))))\<rparr>"

definition quota_api :: controller where
  "quota_api =
     BaseAPI\<lparr>retrieve :=
       (\<lambda>request pk. Inl (APIException_init (PStr ''quota'')
                            (Some (PStr ''Quota exceeded'')) (Some (PInt 999))))\<rparr>"

definition code_only_api :: controller where
  "code_only_api =
     BaseAPI\<lparr>retrieve :=
       (\<lambda>request pk. Inl (APIException_init (PStr ''out_of_stock'') None None))\<rparr>"

text \<open>Controllers whose \<^verbatim>\<open>list\<close> returns a dict, a list, and a tuple of three.\<close>

definition dict_api :: controller where
  "dict_api =
     BaseAPI\<lparr>list_op := (\<lambda>request. Inr (PDict [(PStr ''items'', PList [PInt 1, PInt 2])]))\<rparr>"

definition list_api :: controller where
  "list_api = BaseAPI\<lparr>list_op := (\<lambda>request. Inr (PList [PInt 1, PInt 2]))\<rparr>"

definition triple_api :: controller where
  "triple_api =
     BaseAPI\<lparr>list_op := (\<lambda>request. Inr (PTuple [PDict [], PInt 200, PStr ''extra'']))\<rparr>"

text \<open>
  Two schemas with one required field each, and a controller that binds the first as
  the query schema of \<^verbatim>\<open>list\<close> (and of nothing else); its \<^verbatim>\<open>list\<close> reports the validated
  query it was given.
\<close>

definition page_schema :: schema where
  "page_schema kw =
     (case map_of kw ''page'' of
        None \<Rightarrow> Inl (ValidationError
                  (PList [PDict [(PStr ''loc'', PStr ''page''), (PStr ''msg'', PStr ''Field required'')]]))
      | Some v \<Rightarrow> Inr (PDict [(PStr ''page'', v)]))"

definition name_schema :: schema where
  "name_schema kw =
     (case map_of kw ''name'' of
        None \<Rightarrow> Inl (ValidationError
                  (PList [PDict [(PStr ''loc'', PStr ''name''), (PStr ''msg'', PStr ''Field required'')]]))
      | Some v \<Rightarrow> Inr (PDict [(PStr ''name'', v)]))"

definition listing_api :: controller where
  "listing_api =
     BaseAPI\<lparr>list_op :=
               (\<lambda>request. Inr (PDict [(PStr ''validated_query'',
                                        (case validated_query request of
                                           None \<Rightarrow> PStr ''(unset)''
                                         | Some v \<Rightarrow> v))])),
             attrs :=
               (\<lambda>m. if m = M_list then validate_decorator (Some page_schema) None no_attrs
                     else no_attrs)\<rparr>"

definition jobs_class :: api_class where
  "jobs_class = \<lparr>cls_module = ''jobs.apis'', cls_instance = BaseAPI\<rparr>"

section \<open>Facts about runs\<close>

lemma and_then_Inl: "and_then (t, Inl e) f = (t, Inl e)"
  by (simp add: and_then_def)

lemma and_then_Inr: "and_then (t, Inr x) f = (t @ fst (f x), snd (f x))"
  by (simp add: and_then_def split: prod.splits)

lemma and_then_returns: "and_then (returns x) f = f x"
  by (simp add: and_then_def returns_def split: prod.splits)

lemma and_then_calls_Inl: "and_then (calls ev (Inl e)) f = ([ev], Inl e)"
  by (simp add: calls_def and_then_Inl)

lemma and_then_calls_Inr: "and_then (calls ev (Inr x)) f = (ev # fst (f x), snd (f x))"
  by (simp add: calls_def and_then_Inr)

lemma fst_and_then_outcome: "fst (and_then m (\<lambda>x. outcome (g x))) = fst m"
  by (cases m; cases "snd m") (auto simp: and_then_def outcome_def)

lemma snd_and_then_outcome:
  "snd (and_then m (\<lambda>x. outcome (g x))) = (case snd m of Inl e \<Rightarrow> Inl e | Inr x \<Rightarrow> g x)"
  by (cases m; cases "snd m") (auto simp: and_then_def outcome_def)

lemma fst_try_except: "fst (try_except m h) = fst m"
  by (cases m; cases "snd m") (auto simp: try_except_def)

lemma snd_try_except:
  "snd (try_except m h) = (case snd m of Inl e \<Rightarrow> h e | Inr x \<Rightarrow> Inr x)"
  by (cases m; cases "snd m") (auto simp: try_except_def)

section \<open>The three ways through \<^verbatim>\<open>dispatch\<close>\<close>

lemma dispatch_authenticate_raises:
  "authenticate self request = Inl e \<Longrightarrow> dispatch self request pk = ([CallAuthenticate], Inl e)"
  by (simp add: dispatch_def and_then_calls_Inl)

lemma dispatch_validate_raises:
  "authenticate self request = Inr r1 \<Longrightarrow> validate self r1 = Inl e \<Longrightarrow>
     dispatch self request pk = ([CallAuthenticate, CallValidate], Inl e)"
  by (simp add: dispatch_def and_then_calls_Inl and_then_calls_Inr)

lemma dispatch_hooks_return:
  "authenticate self request = Inr r1 \<Longrightarrow> validate self r1 = Inr r2 \<Longrightarrow>
     dispatch self request pk =
       (CallAuthenticate # CallValidate # fst (View_dispatch self r2 pk),
        case snd (View_dispatch self r2 pk) of
          Inl e \<Rightarrow> except_clauses e
        | Inr v \<Rightarrow> (case build_response v of
                     Inl e \<Rightarrow> except_clauses e
                   | Inr r \<Rightarrow> Inr r))"
  by (simp add: dispatch_def and_then_calls_Inr fst_try_except snd_try_except
      fst_and_then_outcome snd_and_then_outcome split: sum.splits)

section \<open>The route registrar\<close>

lemma split_first_no_dot: "CHR ''.'' \<notin> set (split_first s)"
  unfolding split_first_def by (induction s) auto

lemma split_first_prefix:
  "s = split_first s \<or> (\<exists>rest. s = split_first s @ CHR ''.'' # rest)"
  unfolding split_first_def by (induction s) auto

text \<open>
  Claim C8. \<^verbatim>\<open>Router.add\<close> takes the resource name to be the first dot-separated segment
  of the controller's module (it holds no dot, and the module is that segment alone or
  that segment, a dot and the rest), and appends exactly two entries to the table
  behind the entries already there: the collection route \<open>resource/\<close> and the item route
  \<open>resource/<str:pk>/\<close>, both with the view of the same controller class.
\<close>

theorem add_appends_collection_and_item_route:
  "CHR ''.'' \<notin> set (split_first (cls_module klass))
   \<and> (cls_module klass = split_first (cls_module klass)
        \<or> (\<exists>rest. cls_module klass = split_first (cls_module klass) @ CHR ''.'' # rest))
   \<and> urls (add self klass) =
        urls self @
          [\<lparr>route = split_first (cls_module klass) @ ''/'',
            callback = as_view klass,
            name = split_first (cls_module klass) @ ''-list''\<rparr>,
           \<lparr>route = split_first (cls_module klass) @ ''/<str:pk>/'',
            callback = as_view klass,
            name = split_first (cls_module klass) @ ''-detail''\<rparr>]
   \<and> length (urls (add self klass)) = length (urls self) + 2"
proof -
  have "urls (add self klass) =
        urls self @
          [\<lparr>route = split_first (cls_module klass) @ ''/'',
            callback = as_view klass,
            name = split_first (cls_module klass) @ ''-list''\<rparr>,
           \<lparr>route = split_first (cls_module klass) @ ''/<str:pk>/'',
            callback = as_view klass,
            name = split_first (cls_module klass) @ ''-detail''\<rparr>]"
    by (simp add: add_def urls_def path_def Let_def)
  then show ?thesis
    using split_first_no_dot [of "cls_module klass"] split_first_prefix [of "cls_module klass"]
    by simp
qed

text \<open>The controller class of module \<open>jobs.apis\<close>, registered with an empty router.\<close>

lemma add_jobs_example:
  "map (\<lambda>p. (route p, name p)) (urls (add Router_init jobs_class)) =
     [(''jobs/'', ''jobs-list''), (''jobs/<str:pk>/'', ''jobs-detail'')]"
  by (simp add: add_def urls_def path_def Router_init_def jobs_class_def split_first_def)

section \<open>Schema binding declarations\<close>

text \<open>
  Claim C9, as the code has it. Two declarations applied to the same method one after
  the other, first \<open>validate(query=q1, body=b1)\<close> and then \<open>validate(query=q2, body=b2)\<close>.
  On the query side and on the body side alike: when the later declaration names a
  schema for the side, that schema is the one bound afterwards, whatever the earlier
  declaration named; when the later declaration leaves the side out, it writes nothing
  there, and the side keeps the schema of the earlier declaration (or, if that one left
  it out too, what the method had before). The decorator has no failure outcome, so
  every overwrite is silent.
\<close>

theorem last_declaration_wins:
  "validate_query (validate_decorator q2 b2 (validate_decorator q1 b1 f)) =
     (case q2 of
        Some s \<Rightarrow> Some s
      | None \<Rightarrow> (case q1 of Some s \<Rightarrow> Some s | None \<Rightarrow> validate_query f))
   \<and> validate_body (validate_decorator q2 b2 (validate_decorator q1 b1 f)) =
     (case b2 of
        Some s \<Rightarrow> Some s
      | None \<Rightarrow> (case b1 of Some s \<Rightarrow> Some s | None \<Rightarrow> validate_body f))"
  by (simp add: validate_decorator_def Let_def split: option.splits)

text \<open>
  Claim C9 as it is worded fails: a later declaration that names only a query schema
  does not overwrite the body schema of the earlier one, and a later declaration that
  names only a body schema does not overwrite the earlier query schema.
\<close>

theorem earlier_side_survives_later_declaration:
  "validate_body (validate_decorator (Some page_schema) None
                   (validate_decorator (Some name_schema) (Some name_schema) no_attrs)) =
     Some name_schema
   \<and> validate_query (validate_decorator None (Some page_schema)
                       (validate_decorator (Some name_schema) None no_attrs)) =
     Some name_schema"
  by (simp add: validate_decorator_def no_attrs_def Let_def)

text \<open>
  A declaration writes a side only when it names a schema for it: a side that it
  leaves out keeps whatever was bound before.
\<close>

lemma omitted_side_keeps_binding:
  "validate_query (validate_decorator None b g) = validate_query g
   \<and> validate_body (validate_decorator q None g) = validate_body g"
  by (simp add: validate_decorator_def Let_def split: option.splits)

section \<open>Unfolding the model on concrete inputs\<close>

lemmas run_simps = and_then_def returns_def raises_def calls_def outcome_def try_except_def

lemmas base_defs = BaseAPI_def no_attrs_def validate_decorator_def APIException_init_def
  example_request_def

lemmas model_defs = dispatch_def View_dispatch_def get_def post_def put_def delete_def
  pk_required_def BaseAPI_validate_def build_response_def JsonResponse_def QueryDict_dict_def
  response_object_def

section \<open>The request validator\<close>

text \<open>
  Claim C3, as the code has it. The validator looks at the function object it is
  handed (\<^verbatim>\<open>self.retrieve\<close> for \<^verbatim>\<open>GET\<close>, \<^verbatim>\<open>self.create\<close> for \<^verbatim>\<open>POST\<close>, \<^verbatim>\<open>self.put\<close> for \<^verbatim>\<open>PUT\<close>
  and \<^verbatim>\<open>DELETE\<close>), not at the operation that runs afterwards. When that function has no
  query schema bound, the validator does not read or validate the query string, and
  when it returns the request's \<^verbatim>\<open>validated_query\<close> attribute has been assigned Python's
  \<^verbatim>\<open>None\<close>; likewise for the body schema and \<^verbatim>\<open>validated_body\<close>. The attribute is set to
  the null value, not left absent.
\<close>

theorem unbound_side_not_parsed_and_slot_None:
  "(validate_query function = None \<longrightarrow>
      Parse QuerySide \<notin> set (fst (BaseAPI_validate function request)) \<and>
      (\<forall>r. snd (BaseAPI_validate function request) = Inr r \<longrightarrow> validated_query r = Some PNone))
   \<and> (validate_body function = None \<longrightarrow>
      Parse BodySide \<notin> set (fst (BaseAPI_validate function request)) \<and>
      (\<forall>r. snd (BaseAPI_validate function request) = Inr r \<longrightarrow> validated_body r = Some PNone))"
  by (auto simp: BaseAPI_validate_def run_simps split: option.splits sum.splits prod.splits if_splits)

text \<open>
  A function with only a body schema bound, on a JSON \<^verbatim>\<open>POST\<close>: the body is validated,
  the query string is not touched and \<^verbatim>\<open>validated_query\<close> is \<^verbatim>\<open>None\<close>.
\<close>

theorem unbound_side_witness:
  "validate_query (validate_decorator None (Some name_schema) no_attrs) = None
   \<and> Parse QuerySide \<notin> set (fst (BaseAPI_validate (validate_decorator None (Some name_schema) no_attrs) post_request))
   \<and> snd (BaseAPI_validate (validate_decorator None (Some name_schema) no_attrs) post_request) =
       Inr (post_request\<lparr>validated_body := Some (PDict [(PStr ''name'', PStr ''foo'')]),
                         validated_query := Some PNone\<rparr>)
   \<and> validated_query (post_request\<lparr>validated_body := Some (PDict [(PStr ''name'', PStr ''foo'')]),
                         validated_query := Some PNone\<rparr>) = Some PNone"
  using unbound_side_not_parsed_and_slot_None
    [of "validate_decorator None (Some name_schema) no_attrs" post_request]
  by (simp add: base_defs name_schema_def post_request_def model_defs run_simps)

text \<open>
  Claim C3 as it is worded fails: with nothing bound, a request whose
  \<^verbatim>\<open>validated_query\<close> attribute did not exist has it afterwards, holding \<^verbatim>\<open>None\<close>.
\<close>

theorem unbound_slot_is_assigned_None:
  "validate_query no_attrs = None
   \<and> validated_query example_request = None
   \<and> BaseAPI_validate no_attrs example_request =
       ([], Inr (example_request\<lparr>validated_body := Some PNone, validated_query := Some PNone\<rparr>))
   \<and> validated_query (example_request\<lparr>validated_body := Some PNone, validated_query := Some PNone\<rparr>) \<noteq> None"
  by (simp add: base_defs model_defs run_simps)

text \<open>
  The validator does not read what it does not parse: with no query schema bound its
  run is the same whatever the query string holds, and with no body schema bound it is
  the same whatever the body and the form data hold.
\<close>

lemma unbound_query_not_read:
  "validate_query function = None \<Longrightarrow>
     BaseAPI_validate function (request\<lparr>req_GET := g\<rparr>) =
       (fst (BaseAPI_validate function request),
        map_sum id (\<lambda>r. r\<lparr>req_GET := g\<rparr>) (snd (BaseAPI_validate function request)))"
  by (auto simp: BaseAPI_validate_def run_simps split: option.splits sum.splits prod.splits)

lemma unbound_body_not_read:
  "validate_body function = None \<Longrightarrow>
     BaseAPI_validate function (request\<lparr>req_body_json := j, req_POST := p\<rparr>) =
       (fst (BaseAPI_validate function request),
        map_sum id (\<lambda>r. r\<lparr>req_body_json := j, req_POST := p\<rparr>)
          (snd (BaseAPI_validate function request)))"
  by (auto simp: BaseAPI_validate_def run_simps split: option.splits sum.splits prod.splits)

section \<open>The verb handlers\<close>

text \<open>
  The routing table, for a request that passes the validator: \<^verbatim>\<open>GET\<close> with an
  identifier runs \<^verbatim>\<open>retrieve\<close>, \<^verbatim>\<open>GET\<close> without one runs \<^verbatim>\<open>list\<close>, \<^verbatim>\<open>POST\<close> runs
  \<^verbatim>\<open>create\<close>, \<^verbatim>\<open>PUT\<close> and \<^verbatim>\<open>DELETE\<close> with an identifier run \<^verbatim>\<open>update\<close> and \<^verbatim>\<open>destroy\<close>;
  without one they build the 400 response and call nothing.
\<close>

lemma verb_routing:
  "k \<noteq> [] \<Longrightarrow> BaseAPI_validate (attrs self M_retrieve) request = (t, Inr r) \<Longrightarrow>
     get self request (Some k) = (t @ [Invoke OpRetrieve], retrieve self r k)"
  "BaseAPI_validate (attrs self M_retrieve) request = (t, Inr r) \<Longrightarrow>
     get self request None = (t @ [Invoke OpList], list_op self r)"
  "BaseAPI_validate (attrs self M_create) request = (t, Inr r) \<Longrightarrow>
     post self request = (t @ [Invoke OpCreate], create self r)"
  "k \<noteq> [] \<Longrightarrow> BaseAPI_validate (attrs self M_put) request = (t, Inr r) \<Longrightarrow>
     put self request (Some k) = (t @ [Invoke OpUpdate], update self r k)"
  "k \<noteq> [] \<Longrightarrow> BaseAPI_validate (attrs self M_put) request = (t, Inr r) \<Longrightarrow>
     delete self request (Some k) = (t @ [Invoke OpDestroy], destroy self r k)"
  "put self request None =
     ([], Inr (PResponse (PDict [(PStr ''error'', PStr ''PUT method requires 'pk' parameter'')]) 400))"
  "delete self request None =
     ([], Inr (PResponse (PDict [(PStr ''error'', PStr ''DELETE method requires 'pk' parameter'')]) 400))"
  by (simp_all add: get_def post_def put_def delete_def pk_required_def JsonResponse_def
      response_object_def run_simps)

text \<open>
  Claim C2 on a concrete input. \<^verbatim>\<open>list\<close> has a query schema bound that the (empty)
  query string violates, \<^verbatim>\<open>retrieve\<close> has none. For a \<^verbatim>\<open>GET\<close> without identifier the
  validator is handed \<^verbatim>\<open>self.retrieve\<close>: nothing is parsed, \<^verbatim>\<open>list\<close> runs with
  \<^verbatim>\<open>validated_query = None\<close> and the answer is 200.
\<close>

theorem get_without_pk_ignores_list_binding:
  "validate_query (attrs listing_api M_list) = Some page_schema
   \<and> validate_query (attrs listing_api M_retrieve) = None
   \<and> page_schema (QueryDict_dict (req_GET example_request)) =
       Inl (ValidationError
             (PList [PDict [(PStr ''loc'', PStr ''page''), (PStr ''msg'', PStr ''Field required'')]]))
   \<and> dispatch listing_api example_request None =
       ([CallAuthenticate, CallValidate, Invoke OpList],
        Inr \<lparr>body = PDict [(PStr ''validated_query'', PNone)], status = 200\<rparr>)"
  by (simp add: base_defs listing_api_def page_schema_def model_defs run_simps)

text \<open>
  Claim C4 on a concrete input. For a \<^verbatim>\<open>PUT\<close> (a \<^verbatim>\<open>DELETE\<close>) without identifier the
  handler returns the 400 response object and calls no operation; \<^verbatim>\<open>dispatch\<close> then
  hands that object to \<^verbatim>\<open>JsonResponse\<close> as if it were data, which raises \<^verbatim>\<open>TypeError\<close>, and
  the answer is the 500 of the \<^verbatim>\<open>except TypeError\<close> clause.
\<close>

theorem put_without_pk_answers_500:
  "put BaseAPI put_request None =
     ([], Inr (PResponse (PDict [(PStr ''error'', PStr ''PUT method requires 'pk' parameter'')]) 400))
   \<and> dispatch BaseAPI put_request None =
     ([CallAuthenticate, CallValidate],
      Inr \<lparr>body = PDict [(PStr ''error'', PStr ''Server returned invalid data.''),
                         (PStr ''code'', PStr ''server_borked'')],
           status = 500\<rparr>)
   \<and> delete BaseAPI delete_request None =
     ([], Inr (PResponse (PDict [(PStr ''error'', PStr ''DELETE method requires 'pk' parameter'')]) 400))
   \<and> dispatch BaseAPI delete_request None =
     ([CallAuthenticate, CallValidate],
      Inr \<lparr>body = PDict [(PStr ''error'', PStr ''Server returned invalid data.''),
                         (PStr ''code'', PStr ''server_borked'')],
           status = 500\<rparr>)"
  by (simp add: base_defs put_request_def delete_request_def model_defs run_simps)

section \<open>The hook sequence\<close>

lemma BaseAPI_validate_events:
  "ev \<in> set (fst (BaseAPI_validate function request)) \<Longrightarrow> \<exists>s. ev = Parse s"
  by (auto simp: BaseAPI_validate_def run_simps split: option.splits sum.splits prod.splits if_splits)

lemma fst_and_then_subset:
  "ev \<in> set (fst (and_then m f)) \<Longrightarrow>
     ev \<in> set (fst m) \<or> (\<exists>x. snd m = Inr x \<and> ev \<in> set (fst (f x)))"
  by (cases m; cases "snd m") (auto simp: and_then_def split: prod.splits)

lemma pk_required_events: "fst (pk_required verb) = []"
  by (simp add: pk_required_def outcome_def)

lemma View_dispatch_events:
  assumes "ev \<in> set (fst (View_dispatch self request pk))"
  shows "(\<exists>s. ev = Parse s) \<or> (\<exists>op. ev = Invoke op)"
proof -
  have g: "ev \<in> set (fst (get self request pk)) \<Longrightarrow> ?thesis"
    unfolding get_def
    by (auto dest!: fst_and_then_subset BaseAPI_validate_events
        simp: calls_def split: option.splits if_splits)
  have po: "ev \<in> set (fst (post self request)) \<Longrightarrow> ?thesis"
    unfolding post_def
    by (auto dest!: fst_and_then_subset BaseAPI_validate_events simp: calls_def)
  have pu: "ev \<in> set (fst (put self request pk)) \<Longrightarrow> ?thesis"
    unfolding put_def
    by (auto dest!: fst_and_then_subset BaseAPI_validate_events
        simp: calls_def pk_required_events split: option.splits if_splits)
  have de: "ev \<in> set (fst (delete self request pk)) \<Longrightarrow> ?thesis"
    unfolding delete_def
    by (auto dest!: fst_and_then_subset BaseAPI_validate_events
        simp: calls_def pk_required_events split: option.splits if_splits)
  show ?thesis
    using assms g po pu de
    by (cases "req_method request"; cases pk)
       (simp_all add: View_dispatch_def returns_def raises_def)
qed

text \<open>
  Claim C7. Whatever the request, the verb and the identifier: the first call of
  \<^verbatim>\<open>dispatch\<close> is the authentication hook; once that has returned, the next call is the
  generic validation hook; and whenever one of the five operation methods is called,
  both hooks have been called and have returned before it, authentication first, each
  of them once.
\<close>

theorem hooks_run_first_in_order:
  "(\<exists>rest. fst (dispatch self request pk) = CallAuthenticate # rest)
   \<and> (\<forall>r1. authenticate self request = Inr r1 \<longrightarrow>
         (\<exists>rest. fst (dispatch self request pk) = CallAuthenticate # CallValidate # rest))
   \<and> (\<forall>op. Invoke op \<in> set (fst (dispatch self request pk)) \<longrightarrow>
         (\<exists>r1 r2 rest.
            authenticate self request = Inr r1 \<and> validate self r1 = Inr r2 \<and>
            fst (dispatch self request pk) = CallAuthenticate # CallValidate # rest \<and>
            CallAuthenticate \<notin> set rest \<and> CallValidate \<notin> set rest))"
proof (cases "authenticate self request")
  case (Inl e)
  then show ?thesis by (simp add: dispatch_authenticate_raises)
next
  case a: (Inr r1)
  show ?thesis
  proof (cases "validate self r1")
    case (Inl e)
    with a show ?thesis by (simp add: dispatch_validate_raises)
  next
    case v: (Inr r2)
    have "CallAuthenticate \<notin> set (fst (View_dispatch self r2 pk))"
      "CallValidate \<notin> set (fst (View_dispatch self r2 pk))"
      using View_dispatch_events [of _ self r2 pk] by auto
    with a v show ?thesis by (simp add: dispatch_hooks_return [OF a v])
  qed
qed

theorem hooks_run_first_witness:
  "authenticate dict_api example_request = Inr example_request
   \<and> Invoke OpList \<in> set (fst (dispatch dict_api example_request None))
   \<and> fst (dispatch dict_api example_request None) = [CallAuthenticate, CallValidate, Invoke OpList]"
  using hooks_run_first_in_order [of dict_api example_request None]
  by (simp add: base_defs dict_api_def model_defs run_simps)

section \<open>From outcome to response\<close>

text \<open>
  Claim C1, as the code has it. The two hooks are called before the \<^verbatim>\<open>try\<close>: an
  exception raised by the authentication hook or by the generic validation hook is
  not caught and leaves \<^verbatim>\<open>dispatch\<close>. Once both hooks have returned, every \<^verbatim>\<open>Exception\<close>
  raised inside the \<^verbatim>\<open>try\<close> (by the verb handler, the request validator, the operation
  method or the construction of the response) ends in one response, provided the
  \<^verbatim>\<open>except\<close> clause can build it: validation errors must be JSON-serialisable, and an
  \<^verbatim>\<open>APIException\<close> needs a JSON-serialisable code and message and a status that is
  \<^verbatim>\<open>None\<close> or an integer from 100 to 599.
\<close>

theorem failures_inside_try_are_translated:
  "(authenticate self request = Inl e \<longrightarrow> snd (dispatch self request pk) = Inl e)
   \<and> (authenticate self request = Inr r1 \<and> validate self r1 = Inl e \<longrightarrow>
         snd (dispatch self request pk) = Inl e)
   \<and> (authenticate self request = Inr r1 \<and> validate self r1 = Inr r2 \<and>
        (case snd (View_dispatch self r2 pk) of
           Inl (ValidationError errors) \<Rightarrow> json_serializable errors
         | Inl (APIException c m s) \<Rightarrow>
             json_serializable c \<and> json_serializable m \<and>
             (s = PNone \<or> (\<exists>n. s = PInt n \<and> 100 \<le> n \<and> n \<le> 599))
         | Inl (NonException n) \<Rightarrow> False
         | _ \<Rightarrow> True)
       \<longrightarrow> (\<exists>resp. snd (dispatch self request pk) = Inr resp))"
proof (intro conjI impI)
  assume "authenticate self request = Inl e"
  then show "snd (dispatch self request pk) = Inl e"
    by (simp add: dispatch_authenticate_raises)
next
  assume "authenticate self request = Inr r1 \<and> validate self r1 = Inl e"
  then show "snd (dispatch self request pk) = Inl e"
    by (simp add: dispatch_validate_raises)
next
  assume h: "authenticate self request = Inr r1 \<and> validate self r1 = Inr r2 \<and>
        (case snd (View_dispatch self r2 pk) of
           Inl (ValidationError errors) \<Rightarrow> json_serializable errors
         | Inl (APIException c m s) \<Rightarrow>
             json_serializable c \<and> json_serializable m \<and>
             (s = PNone \<or> (\<exists>n. s = PInt n \<and> 100 \<le> n \<and> n \<le> 599))
         | Inl (NonException n) \<Rightarrow> False
         | _ \<Rightarrow> True)"
  have caught: "\<exists>resp. except_clauses x = Inr resp"
    if "case x of ValidationError errors \<Rightarrow> json_serializable errors
         | APIException c m s \<Rightarrow>
             json_serializable c \<and> json_serializable m \<and>
             (s = PNone \<or> (\<exists>n. s = PInt n \<and> 100 \<le> n \<and> n \<le> 599))
         | NonException n \<Rightarrow> False
         | _ \<Rightarrow> True" for x
    using that by (cases x) (auto simp: JsonResponse_def)
  have built: "\<exists>resp. (case build_response v of Inl x \<Rightarrow> except_clauses x | Inr r \<Rightarrow> Inr r) = Inr resp" for v
  proof (cases "build_response v")
    case (Inr r)
    then show ?thesis by simp
  next
    case (Inl x)
    have "x = TypeError \<or> x = ValueError"
      using Inl
      by (auto simp: build_response_def JsonResponse_def
          split: pyval.splits list.splits if_splits option.splits)
    then show ?thesis using Inl by (auto simp: JsonResponse_def)
  qed
  from h have a: "authenticate self request = Inr r1" and v: "validate self r1 = Inr r2"
    by simp_all
  show "\<exists>resp. snd (dispatch self request pk) = Inr resp"
  proof (cases "snd (View_dispatch self r2 pk)")
    case (Inl x)
    with h caught [of x] show ?thesis
      by (simp add: dispatch_hooks_return [OF a v])
  next
    case (Inr val)
    with built [of val] show ?thesis
      by (simp add: dispatch_hooks_return [OF a v])
  qed
qed

text \<open>
  The three cases on concrete controllers: an authentication hook that raises, a
  validation hook that raises, and \<^verbatim>\<open>BaseAPI\<close> itself, whose \<^verbatim>\<open>list\<close> raises
  \<^verbatim>\<open>NotImplementedError\<close> inside the \<^verbatim>\<open>try\<close>.
\<close>

theorem failures_inside_try_witness:
  "authenticate guarded_api example_request =
     Inl (APIException (PStr ''unauthorized'') (PStr ''Login required'') (PInt 401))
   \<and> snd (dispatch guarded_api example_request None) =
     Inl (APIException (PStr ''unauthorized'') (PStr ''Login required'') (PInt 401))
   \<and> authenticate strict_api example_request = Inr example_request
   \<and> validate strict_api example_request = Inl ValueError
   \<and> snd (dispatch strict_api example_request None) = Inl ValueError
   \<and> authenticate BaseAPI example_request = Inr example_request
   \<and> validate BaseAPI example_request = Inr example_request
   \<and> snd (View_dispatch BaseAPI example_request None) = Inl NotImplementedError
   \<and> (\<exists>resp. snd (dispatch BaseAPI example_request None) = Inr resp)"
proof -
  have g: "authenticate guarded_api example_request =
     Inl (APIException (PStr ''unauthorized'') (PStr ''Login required'') (PInt 401))"
    by (simp add: base_defs guarded_api_def strict_api_def)
  have s: "authenticate strict_api example_request = Inr example_request
      \<and> validate strict_api example_request = Inl ValueError"
    by (simp add: base_defs guarded_api_def strict_api_def)
  have b: "authenticate BaseAPI example_request = Inr example_request
      \<and> validate BaseAPI example_request = Inr example_request"
    by (simp add: base_defs guarded_api_def strict_api_def)
  have r: "snd (View_dispatch BaseAPI example_request None) = Inl NotImplementedError"
    by (simp add: base_defs guarded_api_def strict_api_def model_defs run_simps)
  from failures_inside_try_are_translated
      [of guarded_api example_request
          "APIException (PStr ''unauthorized'') (PStr ''Login required'') (PInt 401)" None]
    g
  have 1: "snd (dispatch guarded_api example_request None) =
     Inl (APIException (PStr ''unauthorized'') (PStr ''Login required'') (PInt 401))"
    by simp
  from failures_inside_try_are_translated
      [of strict_api example_request ValueError None example_request] s
  have 2: "snd (dispatch strict_api example_request None) = Inl ValueError"
    by simp
  from failures_inside_try_are_translated
      [of BaseAPI example_request _ None example_request example_request] b r
  have 3: "\<exists>resp. snd (dispatch BaseAPI example_request None) = Inr resp"
    by simp
  from g s b r 1 2 3 show ?thesis by simp
qed

text \<open>
  Claim C1 as it is worded fails: the \<^verbatim>\<open>APIException\<close> raised by an authentication hook
  leaves \<^verbatim>\<open>dispatch\<close> after that one call, and there is no response.
\<close>

theorem authenticate_failure_escapes:
  "dispatch guarded_api example_request None =
     ([CallAuthenticate],
      Inl (APIException (PStr ''unauthorized'') (PStr ''Login required'') (PInt 401)))"
  by (simp add: base_defs guarded_api_def model_defs run_simps)

text \<open>
  Claim C5, as the code has it. An \<^verbatim>\<open>APIException\<close> that leaves the verb handler with
  an integer status \<open>s\<close> from 100 to 599, a JSON-serialisable code \<open>c\<close> and message \<open>m\<close> is
  answered with status exactly \<open>s\<close> and body \<open>{"error": m, "code": c}\<close>.
\<close>

theorem api_exception_status_in_range:
  assumes "authenticate self request = Inr r1"
    and "validate self r1 = Inr r2"
    and "snd (View_dispatch self r2 pk) = Inl (APIException c m (PInt s))"
    and "100 \<le> s" and "s \<le> 599"
    and "json_serializable c" and "json_serializable m"
  shows "snd (dispatch self request pk) =
           Inr \<lparr>body = PDict [(PStr ''error'', m), (PStr ''code'', c)], status = s\<rparr>"
  using assms(3-)
  by (simp add: dispatch_hooks_return [OF assms(1,2)] JsonResponse_def)

theorem api_exception_status_witness:
  "authenticate teapot_api example_request = Inr example_request
   \<and> validate teapot_api example_request = Inr example_request
   \<and> snd (View_dispatch teapot_api example_request (Some ''42'')) =
       Inl (APIException (PStr ''teapot'') (PStr ''I am a teapot'') (PInt 418))
   \<and> snd (dispatch teapot_api example_request (Some ''42'')) =
       Inr \<lparr>body = PDict [(PStr ''error'', PStr ''I am a teapot''), (PStr ''code'', PStr ''teapot'')],
            status = 418\<rparr>"
proof -
  have a: "authenticate teapot_api example_request = Inr example_request"
    by (simp add: base_defs teapot_api_def)
  have v: "validate teapot_api example_request = Inr example_request"
    by (simp add: base_defs teapot_api_def)
  have r: "snd (View_dispatch teapot_api example_request (Some ''42'')) =
       Inl (APIException (PStr ''teapot'') (PStr ''I am a teapot'') (PInt 418))"
    by (simp add: base_defs teapot_api_def model_defs run_simps)
  from api_exception_status_in_range [OF a v r] a v r show ?thesis by simp
qed

text \<open>
  Claim C5 as it is worded fails. An \<^verbatim>\<open>APIException\<close> whose status is \<^verbatim>\<open>None\<close> (the
  constructor's default) is answered with status 200; one whose status is 999 is not
  answered at all: \<^verbatim>\<open>JsonResponse\<close> raises \<^verbatim>\<open>ValueError\<close> inside the \<^verbatim>\<open>except\<close> clause, and
  that exception leaves \<^verbatim>\<open>dispatch\<close>.
\<close>

theorem api_exception_status_not_always_kept:
  "snd (View_dispatch code_only_api example_request (Some ''42'')) =
     Inl (APIException (PStr ''out_of_stock'') PNone PNone)
   \<and> snd (dispatch code_only_api example_request (Some ''42'')) =
       Inr \<lparr>body = PDict [(PStr ''error'', PNone), (PStr ''code'', PStr ''out_of_stock'')],
            status = 200\<rparr>
   \<and> snd (View_dispatch quota_api example_request (Some ''42'')) =
       Inl (APIException (PStr ''quota'') (PStr ''Quota exceeded'') (PInt 999))
   \<and> snd (dispatch quota_api example_request (Some ''42'')) = Inl ValueError"
  by (simp add: base_defs code_only_api_def quota_api_def model_defs run_simps)

text \<open>
  Claim C6, as the code has it. When the verb handler returns a dict (so: not a tuple)
  that \<^verbatim>\<open>json.dumps\<close> can encode, the answer has that dict as its body and status 200.
\<close>

theorem dict_result_gives_200:
  assumes "authenticate self request = Inr r1"
    and "validate self r1 = Inr r2"
    and "snd (View_dispatch self r2 pk) = Inr (PDict kvs)"
    and "json_serializable (PDict kvs)"
  shows "snd (dispatch self request pk) = Inr \<lparr>body = PDict kvs, status = 200\<rparr>"
  using assms(3-)
  by (simp add: dispatch_hooks_return [OF assms(1,2)] build_response_def JsonResponse_def)

theorem dict_result_witness:
  "authenticate dict_api example_request = Inr example_request
   \<and> validate dict_api example_request = Inr example_request
   \<and> snd (View_dispatch dict_api example_request None) =
       Inr (PDict [(PStr ''items'', PList [PInt 1, PInt 2])])
   \<and> json_serializable (PDict [(PStr ''items'', PList [PInt 1, PInt 2])])
   \<and> snd (dispatch dict_api example_request None) =
       Inr \<lparr>body = PDict [(PStr ''items'', PList [PInt 1, PInt 2])], status = 200\<rparr>"
proof -
  have a: "authenticate dict_api example_request = Inr example_request"
    by (simp add: base_defs dict_api_def)
  have v: "validate dict_api example_request = Inr example_request"
    by (simp add: base_defs dict_api_def)
  have r: "snd (View_dispatch dict_api example_request None) =
       Inr (PDict [(PStr ''items'', PList [PInt 1, PInt 2])])"
    by (simp add: base_defs dict_api_def model_defs run_simps)
  have j: "json_serializable (PDict [(PStr ''items'', PList [PInt 1, PInt 2])])" by simp
  from dict_result_gives_200 [OF a v r j] a v r j show ?thesis by simp
qed

text \<open>
  Claim C6 as it is worded fails. A \<^verbatim>\<open>list\<close> operation that returns the JSON-serialisable
  list \<open>[1, 2]\<close> is answered with 500 "Server returned invalid data." (\<^verbatim>\<open>JsonResponse\<close>
  refuses data that is not a dict); one that returns a tuple of three is answered with
  500 "Unknown Error" (the unpacking into two names raises \<^verbatim>\<open>ValueError\<close>).
\<close>

theorem serializable_non_pair_not_always_200:
  "list_op list_api example_request = Inr (PList [PInt 1, PInt 2])
   \<and> json_serializable (PList [PInt 1, PInt 2])
   \<and> snd (dispatch list_api example_request None) =
       Inr \<lparr>body = PDict [(PStr ''error'', PStr ''Server returned invalid data.''),
                          (PStr ''code'', PStr ''server_borked'')],
            status = 500\<rparr>
   \<and> list_op triple_api example_request = Inr (PTuple [PDict [], PInt 200, PStr ''extra''])
   \<and> json_serializable (PTuple [PDict [], PInt 200, PStr ''extra''])
   \<and> snd (dispatch triple_api example_request None) =
       Inr \<lparr>body = PDict [(PStr ''error'', PStr ''Unknown Error''),
                          (PStr ''code'', PStr ''server_borked'')],
            status = 500\<rparr>"
  by (simp add: base_defs list_api_def triple_api_def model_defs run_simps)

text \<open>
  Claim C10. An \<^verbatim>\<open>APIException\<close> constructed with only a code has message \<^verbatim>\<open>None\<close> and
  status \<^verbatim>\<open>None\<close>. When it leaves the verb handler and the code is JSON-serialisable,
  the \<^verbatim>\<open>except\<close> clause hands \<^verbatim>\<open>JsonResponse\<close> the body \<open>{"error": null, "code": code}\<close> with
  the status \<^verbatim>\<open>None\<close>, and the answer has that body and the default status 200.
\<close>

theorem code_only_exception_gives_200:
  assumes "authenticate self request = Inr r1"
    and "validate self r1 = Inr r2"
    and "snd (View_dispatch self r2 pk) = Inl (APIException_init code None None)"
    and "json_serializable code"
  shows "APIException_init code None None = APIException code PNone PNone
         \<and> except_clauses (APIException code PNone PNone) =
             JsonResponse (PDict [(PStr ''error'', PNone), (PStr ''code'', code)]) PNone
         \<and> snd (dispatch self request pk) =
             Inr \<lparr>body = PDict [(PStr ''error'', PNone), (PStr ''code'', code)], status = 200\<rparr>"
  using assms
  by (simp add: dispatch_hooks_return [OF assms(1,2)] APIException_init_def JsonResponse_def)

theorem code_only_exception_witness:
  "authenticate code_only_api example_request = Inr example_request
   \<and> validate code_only_api example_request = Inr example_request
   \<and> snd (View_dispatch code_only_api example_request (Some ''42'')) =
       Inl (APIException_init (PStr ''out_of_stock'') None None)
   \<and> json_serializable (PStr ''out_of_stock'')
   \<and> snd (dispatch code_only_api example_request (Some ''42'')) =
       Inr \<lparr>body = PDict [(PStr ''error'', PNone), (PStr ''code'', PStr ''out_of_stock'')],
            status = 200\<rparr>"
proof -
  have a: "authenticate code_only_api example_request = Inr example_request"
    by (simp add: base_defs code_only_api_def)
  have v: "validate code_only_api example_request = Inr example_request"
    by (simp add: base_defs code_only_api_def)
  have r: "snd (View_dispatch code_only_api example_request (Some ''42'')) =
       Inl (APIException_init (PStr ''out_of_stock'') None None)"
    by (simp add: base_defs code_only_api_def model_defs run_simps)
  have j: "json_serializable (PStr ''out_of_stock'')" by simp
  from code_only_exception_gives_200 [OF a v r j] a v r j show ?thesis by simp
qed

end
